theory Spec2Isabelle
  imports Main "HOL-Library.Word"
begin

section \<open>The UBI device description of \<^verbatim>\<open>drivers/mtd/ubi/ubi.h\<close>\<close>

text \<open>
  The header declares the data structures of UBI and a handful of inline functions; the
  sub-systems themselves (\<^verbatim>\<open>io.c\<close>, \<^verbatim>\<open>eba.c\<close>, \<^verbatim>\<open>wl.c\<close>, \<^verbatim>\<open>attach.c\<close>, ...) are only
  declared in it. What is embedded here is therefore the inline code of the header:
  \<^verbatim>\<open>ubi_io_read_data\<close>, \<^verbatim>\<open>ubi_io_write_data\<close>, \<^verbatim>\<open>ubi_ro_mode\<close>, \<^verbatim>\<open>vol_id2idx\<close> and
  \<^verbatim>\<open>idx2vol_id\<close>, over the fields of \<^verbatim>\<open>struct ubi_device\<close> they read and write.

  A C \<^verbatim>\<open>int\<close> is a 32-bit word in two's complement: \<open>+\<close> and \<open>-\<close> wrap around, and the
  comparisons of the source are the signed ones (\<open>\<le>s\<close>, \<open><s\<close>; \<open>sint\<close> reads the value).
  An \<^verbatim>\<open>unsigned long long\<close> is a 64-bit word with the unsigned order.
\<close>

type_synonym c_int = "32 word"
type_synonym c_ullong = "64 word"

text \<open>
  \<^verbatim>\<open>struct ubi_device\<close>, restricted to the fields that the functions below touch:
  \<^verbatim>\<open>int vtbl_slots\<close> (line 520), \<^verbatim>\<open>unsigned long long global_sqnum\<close> (line 542),
  \<^verbatim>\<open>int ro_mode\<close> (line 591) and \<^verbatim>\<open>int leb_start\<close> (line 593).
\<close>

record ubi_device =
  vtbl_slots :: c_int
  global_sqnum :: c_ullong
  ro_mode :: c_int
  leb_start :: c_int

subsection \<open>Data offsets: \<^verbatim>\<open>ubi_io_read_data\<close> and \<^verbatim>\<open>ubi_io_write_data\<close>\<close>

text \<open>
  \<^verbatim>\<open>
  static inline int ubi_io_read_data(const struct ubi_device *ubi, void *buf,
                                     int pnum, int offset, int len)
  {
          ubi_assert(offset >= 0);
          return ubi_io_read(ubi, buf, pnum, offset + ubi->leb_start, len);
  }
  \<close>
  and the same with \<^verbatim>\<open>ubi_io_write\<close> for \<^verbatim>\<open>ubi_io_write_data\<close>. Two things the body uses
  are not in the header and are parameters of the model: the I/O function it calls
  (\<^verbatim>\<open>ubi_io_read\<close>, \<^verbatim>\<open>ubi_io_write\<close> of \<^verbatim>\<open>io.c\<close>), whose result \<open>'r\<close> stands for the return
  code together with the effect on the buffer or the flash, and the macro \<^verbatim>\<open>ubi_assert\<close>
  of \<^verbatim>\<open>debug.h\<close>, which is given the asserted condition and the rest of the body.
\<close>

definition ubi_io_read_data ::
  "(bool \<Rightarrow> 'r \<Rightarrow> 'r) \<Rightarrow> (ubi_device \<Rightarrow> 'b \<Rightarrow> c_int \<Rightarrow> c_int \<Rightarrow> c_int \<Rightarrow> 'r) \<Rightarrow>
     ubi_device \<Rightarrow> 'b \<Rightarrow> c_int \<Rightarrow> c_int \<Rightarrow> c_int \<Rightarrow> 'r" where
  "ubi_io_read_data ubi_assert ubi_io_read ubi buf pnum offset len =
     ubi_assert (0 \<le>s offset)
       (ubi_io_read ubi buf pnum (offset + leb_start ubi) len)"

definition ubi_io_write_data ::
  "(bool \<Rightarrow> 'r \<Rightarrow> 'r) \<Rightarrow> (ubi_device \<Rightarrow> 'b \<Rightarrow> c_int \<Rightarrow> c_int \<Rightarrow> c_int \<Rightarrow> 'r) \<Rightarrow>
     ubi_device \<Rightarrow> 'b \<Rightarrow> c_int \<Rightarrow> c_int \<Rightarrow> c_int \<Rightarrow> 'r" where
  "ubi_io_write_data ubi_assert ubi_io_write ubi buf pnum offset len =
     ubi_assert (0 \<le>s offset)
       (ubi_io_write ubi buf pnum (offset + leb_start ubi) len)"

subsection \<open>Volume identifiers and table indices: \<^verbatim>\<open>vol_id2idx\<close> and \<^verbatim>\<open>idx2vol_id\<close>\<close>

text \<open>
  \<^verbatim>\<open>
  static inline int vol_id2idx(const struct ubi_device *ubi, int vol_id)
  {
          if (vol_id >= UBI_INTERNAL_VOL_START)
                  return vol_id - UBI_INTERNAL_VOL_START + ubi->vtbl_slots;
          else
                  return vol_id;
  }
  static inline int idx2vol_id(const struct ubi_device *ubi, int idx)
  {
          if (idx >= ubi->vtbl_slots)
                  return idx - ubi->vtbl_slots + UBI_INTERNAL_VOL_START;
          else
                  return idx;
  }
  \<close>
  The constant \<^verbatim>\<open>UBI_INTERNAL_VOL_START\<close> comes from \<^verbatim>\<open>ubi-media.h\<close>, which is not part of
  the sources; it is the first parameter of both functions.
\<close>

definition vol_id2idx :: "c_int \<Rightarrow> ubi_device \<Rightarrow> c_int \<Rightarrow> c_int" where
  "vol_id2idx UBI_INTERNAL_VOL_START ubi vol_id =
     (if UBI_INTERNAL_VOL_START \<le>s vol_id
      then vol_id - UBI_INTERNAL_VOL_START + vtbl_slots ubi
      else vol_id)"

definition idx2vol_id :: "c_int \<Rightarrow> ubi_device \<Rightarrow> c_int \<Rightarrow> c_int" where
  "idx2vol_id UBI_INTERNAL_VOL_START ubi idx =
     (if vtbl_slots ubi \<le>s idx
      then idx - vtbl_slots ubi + UBI_INTERNAL_VOL_START
      else idx)"

subsection \<open>The read-only latch: \<^verbatim>\<open>ubi_ro_mode\<close>\<close>

text \<open>
  \<^verbatim>\<open>
  static inline void ubi_ro_mode(struct ubi_device *ubi)
  {
          if (!ubi->ro_mode) {
                  ubi->ro_mode = 1;
                  ubi_warn("switch to read-only mode");
                  dump_stack();
          }
  }
  \<close>
  \<^verbatim>\<open>ubi_warn\<close> and \<^verbatim>\<open>dump_stack\<close> print to the kernel log and change nothing of the device.
\<close>

definition ubi_ro_mode :: "ubi_device \<Rightarrow> ubi_device" where
  "ubi_ro_mode ubi = (if ro_mode ubi = 0 then ubi\<lparr>ro_mode := 1\<rparr> else ubi)"

section \<open>What the header only declares\<close>

text \<open>
  Two properties below speak about code that the header declares but does not contain.
  Their definitions are written from the specification and say so.
\<close>

subsection \<open>Write paths under the read-only latch\<close>

datatype errno = EROFS | EIO

datatype flash_outcome = FLASH_OK | FLASH_FATAL

text \<open>
  Modelled from the spec: the write paths of UBI (\<^verbatim>\<open>ubi_io_write\<close>, \<^verbatim>\<open>ubi_io_sync_erase\<close>,
  \<^verbatim>\<open>ubi_eba_write_leb\<close>, \<^verbatim>\<open>ubi_eba_unmap_leb\<close>, \<^verbatim>\<open>ubi_eba_atomic_leb_change\<close>, ... of
  \<^verbatim>\<open>io.c\<close> and \<^verbatim>\<open>eba.c\<close>) are missing from the sources. The specification (section 5,
  read-only latch) says of them: ``Any I/O error judged fatal (write failed after torture,
  header write failed on a freshly erased PEB) sets \<^verbatim>\<open>ro_mode = 1\<close>, after which every
  write path returns EROFS.''  A write path is therefore its flash work \<open>body\<close>, which
  is arbitrary and reports whether a fatal I/O error occurred, behind the entry check on
  \<^verbatim>\<open>ro_mode\<close>; a fatal error calls \<^verbatim>\<open>ubi_ro_mode\<close> of the header and fails with EIO.
\<close>

definition write_path ::
  "(ubi_device \<Rightarrow> flash_outcome \<times> ubi_device) \<Rightarrow> ubi_device \<Rightarrow> (errno + unit) \<times> ubi_device" where
  "write_path body ubi =
     (if ro_mode ubi \<noteq> 0 then (Inl EROFS, ubi)
      else case body ubi of
             (FLASH_OK, ubi') \<Rightarrow> (Inr (), ubi')
           | (FLASH_FATAL, ubi') \<Rightarrow> (Inl EIO, ubi_ro_mode ubi'))"

text \<open>
  A session is the sequence of requests served between attach and detach: calls of the
  latch and calls of write paths. (Requests that only read are left out; the
  specification gives them no effect on \<^verbatim>\<open>ro_mode\<close>.)
\<close>

datatype request = RO_MODE | WRITE_PATH "ubi_device \<Rightarrow> flash_outcome \<times> ubi_device"

fun serve :: "request \<Rightarrow> ubi_device \<Rightarrow> (errno + unit) \<times> ubi_device" where
  "serve RO_MODE ubi = (Inr (), ubi_ro_mode ubi)"
| "serve (WRITE_PATH body) ubi = write_path body ubi"

fun session :: "request list \<Rightarrow> ubi_device \<Rightarrow> (errno + unit) list \<times> ubi_device" where
  "session [] ubi = ([], ubi)"
| "session (req # reqs) ubi =
     (case serve req ubi of (r, ubi1) \<Rightarrow>
        (case session reqs ubi1 of (rs, ubi2) \<Rightarrow> (r # rs, ubi2)))"

text \<open>What a request is answered once the latch is set.\<close>

fun ro_reply :: "request \<Rightarrow> errno + unit" where
  "ro_reply RO_MODE = Inr ()"
| "ro_reply (WRITE_PATH body) = Inl EROFS"

subsection \<open>The sequence number allocator\<close>

text \<open>
  Modelled from the spec: \<^verbatim>\<open>ubi_next_sqnum\<close> (\<^verbatim>\<open>eba.c\<close>) is missing from the sources; the
  header declares it as \<^verbatim>\<open>unsigned long long ubi_next_sqnum(struct ubi_device *ubi)\<close> and
  gives the counter its type, \<^verbatim>\<open>unsigned long long global_sqnum\<close>. The specification
  (section 4.4) says: ``\<^verbatim>\<open>next_sqnum()\<close> atomically increments and returns
  \<^verbatim>\<open>global_sqnum\<close>. Every VID header write allocates a new value. After attach,
  \<^verbatim>\<open>global_sqnum = max_sqnum_observed + 1\<close>.''  By the last sentence the counter holds the
  next number to hand out, a number that no header on the flash carries yet: the call
  returns the value the counter has and leaves the counter one higher. The call is one
  step of the model, as the lock makes it one step for every other thread.
\<close>

definition ubi_next_sqnum :: "ubi_device \<Rightarrow> c_ullong \<times> ubi_device" where
  "ubi_next_sqnum ubi =
     (global_sqnum ubi, ubi\<lparr>global_sqnum := global_sqnum ubi + 1\<rparr>)"

text \<open>
  Modelled from the spec: the VID header (\<^verbatim>\<open>struct ubi_vid_hdr\<close> of \<^verbatim>\<open>ubi-media.h\<close>) and the
  functions that write one are missing from the sources. Of the fields that section 6
  lists, only the 64-bit \<^verbatim>\<open>sqnum\<close> and the \<^verbatim>\<open>copy_flag\<close> are kept. Section 4.4: ``Every VID
  header write allocates a new value.''
\<close>

record ubi_vid_hdr =
  copy_flag :: bool
  sqnum :: c_ullong

definition write_vid_hdr :: "ubi_vid_hdr \<Rightarrow> ubi_device \<Rightarrow> ubi_vid_hdr \<times> ubi_device" where
  "write_vid_hdr vid_hdr ubi =
     (case ubi_next_sqnum ubi of (s, ubi') \<Rightarrow> (vid_hdr\<lparr>sqnum := s\<rparr>, ubi'))"

fun write_vid_hdrs :: "ubi_vid_hdr list \<Rightarrow> ubi_device \<Rightarrow> ubi_vid_hdr list \<times> ubi_device" where
  "write_vid_hdrs [] ubi = ([], ubi)"
| "write_vid_hdrs (h # hs) ubi =
     (case write_vid_hdr h ubi of (h', ubi1) \<Rightarrow>
        (case write_vid_hdrs hs ubi1 of (hs', ubi2) \<Rightarrow> (h' # hs', ubi2)))"

subsection \<open>A device to evaluate on\<close>

text \<open>
  A device with 128 volume table slots whose logical eraseblocks start 4096 bytes into
  the physical eraseblock, not in read-only mode, with a fresh sequence counter.
\<close>

definition ubi0 :: ubi_device where
  "ubi0 = \<lparr>vtbl_slots = 128, global_sqnum = 0, ro_mode = 0, leb_start = 4096\<rparr>"

section \<open>Properties\<close>

subsection \<open>Arithmetic of C integers\<close>

text \<open>When the integer result fits into an \<^verbatim>\<open>int\<close>, the wrapped result is that integer.\<close>

lemma sint_int_exact:
  fixes k :: int
  assumes "- (2 ^ 31) \<le> k" and "k < 2 ^ 31"
  shows "sint (word_of_int k :: c_int) = k"
  using assms by (simp add: sint_sbintrunc' signed_take_bit_int_eq_self)

lemma sint_int_wrapped:
  fixes k :: int
  assumes "2 ^ 31 \<le> k"
  shows "sint (word_of_int k :: c_int) \<le> k - 2 ^ 32"
  using signed_take_bit_int_less_eq [of 31 k] assms
  by (simp add: sint_sbintrunc')

lemma sint_sub_add:
  fixes a b c :: c_int
  assumes "- (2 ^ 31) \<le> sint a - sint b + sint c"
      and "sint a - sint b + sint c < 2 ^ 31"
  shows "sint (a - b + c) = sint a - sint b + sint c"
proof -
  have "a - b + c = word_of_int (sint a - sint b + sint c)"
    by simp
  with assms show ?thesis
    by (simp only: sint_int_exact)
qed

lemma sint_add_exact:
  fixes a b :: c_int
  assumes "0 \<le>s a" and "sint a + sint b < 2 ^ 31"
  shows "sint (a + b) = sint a + sint b"
proof -
  have "- (2 ^ 31) \<le> sint b"
    using sint_ge [of b] by simp
  with assms(1) have "- (2 ^ 31) \<le> sint a + sint b"
    by (simp add: word_sle_eq)
  with assms(2) show ?thesis
    by (simp add: sint_word_add signed_take_bit_int_eq_self)
qed



subsection \<open>The data of a logical eraseblock starts at \<^verbatim>\<open>leb_start\<close>\<close>

text \<open>
  Claim C9. For every device, buffer, PEB number, length and non-negative offset
  (relative to the logical eraseblock), \<^verbatim>\<open>ubi_io_read_data\<close> is exactly \<^verbatim>\<open>ubi_io_read\<close> at
  \<^verbatim>\<open>offset + ubi->leb_start\<close>, and \<^verbatim>\<open>ubi_io_write_data\<close> is exactly \<^verbatim>\<open>ubi_io_write\<close> at that
  offset, whatever the two I/O functions are. The assertion \<^verbatim>\<open>offset >= 0\<close> holds on these
  inputs, and all that is assumed of \<^verbatim>\<open>ubi_assert\<close> is that an assertion that holds
  changes nothing. In particular offset 0 of the logical eraseblock is offset
  \<^verbatim>\<open>leb_start\<close> of the physical one. The sum is the C one; when the integer
  \<open>offset + leb_start\<close> fits into an \<^verbatim>\<open>int\<close>, the physical offset is that integer.
\<close>

theorem ubi_io_data_at_leb_start:
  assumes "\<And>r. ubi_assert True r = r" and "0 \<le>s offset"
  shows "ubi_io_read_data ubi_assert ubi_io_read ubi buf pnum offset len =
           ubi_io_read ubi buf pnum (offset + leb_start ubi) len
       \<and> ubi_io_write_data ubi_assert ubi_io_write ubi buf pnum offset len =
           ubi_io_write ubi buf pnum (offset + leb_start ubi) len
       \<and> ubi_io_read_data ubi_assert ubi_io_read ubi buf pnum 0 len =
           ubi_io_read ubi buf pnum (leb_start ubi) len
       \<and> ubi_io_write_data ubi_assert ubi_io_write ubi buf pnum 0 len =
           ubi_io_write ubi buf pnum (leb_start ubi) len
       \<and> (sint offset + sint (leb_start ubi) < 2 ^ 31 \<longrightarrow>
            sint (offset + leb_start ubi) = sint offset + sint (leb_start ubi))"
  using assms
  by (simp add: ubi_io_read_data_def ubi_io_write_data_def sint_add_exact)

text \<open>
  Witness for C9: on \<open>ubi0\<close>, with an \<^verbatim>\<open>ubi_assert\<close> that returns \<open>None\<close> when the
  assertion fails and I/O functions that report the request they were given, reading or
  writing 100 bytes at offset 16 of PEB 7 reaches the flash at offset 4112.
\<close>

theorem ubi_io_data_at_leb_start_witness:
  "(0 :: c_int) \<le>s 16
   \<and> ubi_io_read_data (\<lambda>c r. if c then r else None) (\<lambda>u b p off l. Some (b, p, off, l))
        ubi0 ''r'' 7 16 100 = Some (''r'', 7, 4112, 100)
   \<and> ubi_io_write_data (\<lambda>c r. if c then r else None) (\<lambda>u b p off l. Some (b, p, off, l))
        ubi0 ''r'' 7 16 100 = Some (''r'', 7, 4112, 100)
   \<and> sint (16 + leb_start ubi0) = 4112"
proof -
  let ?assert = "\<lambda>c (r :: (string \<times> c_int \<times> c_int \<times> c_int) option). if c then r else None"
  let ?io = "\<lambda>(u :: ubi_device) (b :: string) (p :: c_int) (off :: c_int) (l :: c_int).
               Some (b, p, off, l)"
  have a: "?assert True r = r" for r
    by simp
  have b: "(0 :: c_int) \<le>s 16"
    by (simp add: word_sle_eq)
  from a b have
    "ubi_io_read_data ?assert ?io ubi0 ''r'' 7 16 100 = ?io ubi0 ''r'' 7 (16 + leb_start ubi0) 100
     \<and> ubi_io_write_data ?assert ?io ubi0 ''r'' 7 16 100 = ?io ubi0 ''r'' 7 (16 + leb_start ubi0) 100
     \<and> ubi_io_read_data ?assert ?io ubi0 ''r'' 7 0 100 = ?io ubi0 ''r'' 7 (leb_start ubi0) 100
     \<and> ubi_io_write_data ?assert ?io ubi0 ''r'' 7 0 100 = ?io ubi0 ''r'' 7 (leb_start ubi0) 100
     \<and> (sint (16 :: c_int) + sint (leb_start ubi0) < 2 ^ 31 \<longrightarrow>
          sint (16 + leb_start ubi0) = sint (16 :: c_int) + sint (leb_start ubi0))"
    by (rule ubi_io_data_at_leb_start)
  with b show ?thesis
    by (simp add: ubi0_def)
qed

subsection \<open>\<^verbatim>\<open>vol_id2idx\<close> and \<^verbatim>\<open>idx2vol_id\<close> invert each other where no addition overflows\<close>

text \<open>
  An internal volume identifier is mapped behind the table slots without overflow when
  the table has no more slots than \<^verbatim>\<open>UBI_INTERNAL_VOL_START\<close>.
\<close>

lemma vol_id2idx_internal:
  assumes "vtbl_slots ubi \<le>s S" and "S \<le>s v"
  shows "sint (vol_id2idx S ubi v) = sint v - sint S + sint (vtbl_slots ubi)"
proof -
  have "sint v < 2 ^ 31" and "- (2 ^ 31) \<le> sint (vtbl_slots ubi)"
    using sint_lt [of v] sint_ge [of "vtbl_slots ubi"] by simp_all
  with assms have "- (2 ^ 31) \<le> sint v - sint S + sint (vtbl_slots ubi)"
    and "sint v - sint S + sint (vtbl_slots ubi) < 2 ^ 31"
    by (simp_all add: word_sle_eq)
  then show ?thesis
    using assms by (simp add: vol_id2idx_def sint_sub_add)
qed

lemma idx2vol_id_vol_id2idx:
  assumes "vtbl_slots ubi \<le>s S"
      and "(0 \<le>s v \<and> v <s vtbl_slots ubi) \<or> S \<le>s v"
  shows "idx2vol_id S ubi (vol_id2idx S ubi v) = v"
proof (cases "S \<le>s v")
  case True
  with assms(1) have "sint (vol_id2idx S ubi v) = sint v - sint S + sint (vtbl_slots ubi)"
    by (rule vol_id2idx_internal)
  with True have "vtbl_slots ubi \<le>s vol_id2idx S ubi v"
    by (simp add: word_sle_eq)
  then show ?thesis
    using True by (simp add: idx2vol_id_def vol_id2idx_def)
next
  case False
  with assms(2) have "v <s vtbl_slots ubi"
    by simp
  then have "\<not> vtbl_slots ubi \<le>s v"
    by (simp add: word_sle_eq word_sless_alt)
  with False show ?thesis
    by (simp add: idx2vol_id_def vol_id2idx_def)
qed

lemma vol_id2idx_idx2vol_id:
  assumes "vtbl_slots ubi \<le>s S"
      and "sint i - sint (vtbl_slots ubi) + sint S < 2 ^ 31"
  shows "vol_id2idx S ubi (idx2vol_id S ubi i) = i"
proof (cases "vtbl_slots ubi \<le>s i")
  case True
  have "- (2 ^ 31) \<le> sint S"
    using sint_ge [of S] by simp
  with True have "- (2 ^ 31) \<le> sint i - sint (vtbl_slots ubi) + sint S"
    by (simp add: word_sle_eq)
  then have "sint (i - vtbl_slots ubi + S) = sint i - sint (vtbl_slots ubi) + sint S"
    using assms(2) by (rule sint_sub_add)
  with True have "S \<le>s i - vtbl_slots ubi + S"
    by (simp add: word_sle_eq)
  then show ?thesis
    using True by (simp add: idx2vol_id_def vol_id2idx_def)
next
  case False
  with assms(1) have "\<not> S \<le>s i"
    by (simp add: word_sle_eq)
  with False show ?thesis
    by (simp add: idx2vol_id_def vol_id2idx_def)
qed

text \<open>
  Claim C10, as amended. On a device whose \<^verbatim>\<open>vtbl_slots\<close> does not exceed
  \<^verbatim>\<open>UBI_INTERNAL_VOL_START\<close>: for every \<^verbatim>\<open>vol_id\<close> with \<^verbatim>\<open>0 <= vol_id < vtbl_slots\<close> or
  \<^verbatim>\<open>vol_id >= UBI_INTERNAL_VOL_START\<close>, \<^verbatim>\<open>idx2vol_id(ubi, vol_id2idx(ubi, vol_id)) = vol_id\<close>;
  and for every index \<^verbatim>\<open>idx\<close> for which the integer
  \<^verbatim>\<open>idx - vtbl_slots + UBI_INTERNAL_VOL_START\<close> does not exceed \<^verbatim>\<open>INT_MAX\<close> (every
  \<^verbatim>\<open>idx < vtbl_slots\<close> is one, and so is the index of every internal volume),
  \<^verbatim>\<open>vol_id2idx(ubi, idx2vol_id(ubi, idx)) = idx\<close>.
\<close>

theorem vol_id_idx_inverse:
  assumes "vtbl_slots ubi \<le>s UBI_INTERNAL_VOL_START"
  shows "((0 \<le>s vol_id \<and> vol_id <s vtbl_slots ubi) \<or> UBI_INTERNAL_VOL_START \<le>s vol_id \<longrightarrow>
            idx2vol_id UBI_INTERNAL_VOL_START ubi
              (vol_id2idx UBI_INTERNAL_VOL_START ubi vol_id) = vol_id)
       \<and> (sint idx - sint (vtbl_slots ubi) + sint UBI_INTERNAL_VOL_START < 2 ^ 31 \<longrightarrow>
            vol_id2idx UBI_INTERNAL_VOL_START ubi
              (idx2vol_id UBI_INTERNAL_VOL_START ubi idx) = idx)"
  using assms idx2vol_id_vol_id2idx vol_id2idx_idx2vol_id
  by blast

text \<open>
  Witness for C10: on \<open>ubi0\<close> (128 slots) with \<^verbatim>\<open>UBI_INTERNAL_VOL_START\<close> = 0x7FFFEFFF
  (\<^verbatim>\<open>0x7FFFFFFF - 4096\<close>), the internal volume 0x7FFFF000 has index 129, and index 129
  is that volume.
\<close>

theorem vol_id_idx_inverse_witness:
  "vtbl_slots ubi0 \<le>s 0x7FFFEFFF
   \<and> (0x7FFFEFFF :: c_int) \<le>s 0x7FFFF000
   \<and> vol_id2idx 0x7FFFEFFF ubi0 0x7FFFF000 = 129
   \<and> idx2vol_id 0x7FFFEFFF ubi0 (vol_id2idx 0x7FFFEFFF ubi0 0x7FFFF000) = 0x7FFFF000
   \<and> sint (129 :: c_int) - sint (vtbl_slots ubi0) + sint (0x7FFFEFFF :: c_int) < 2 ^ 31
   \<and> idx2vol_id 0x7FFFEFFF ubi0 129 = 0x7FFFF000
   \<and> vol_id2idx 0x7FFFEFFF ubi0 (idx2vol_id 0x7FFFEFFF ubi0 129) = 129"
proof -
  have a: "vtbl_slots ubi0 \<le>s 0x7FFFEFFF"
    by (simp add: ubi0_def word_sle_eq)
  show ?thesis
    using a vol_id_idx_inverse [OF a, of "0x7FFFF000" 129]
    by (simp add: ubi0_def word_sle_eq vol_id2idx_def idx2vol_id_def)
qed

text \<open>
  Counterexample to C10 as stated (``for every index \<^verbatim>\<open>idx >= 0\<close>''): on the same device
  and with the same constant, \<^verbatim>\<open>idx = 10000\<close> is not negative, but
  \<^verbatim>\<open>10000 - 128 + 0x7FFFEFFF\<close> exceeds \<^verbatim>\<open>INT_MAX\<close>; \<^verbatim>\<open>idx2vol_id\<close> wraps around to
  -2147477873, which \<^verbatim>\<open>vol_id2idx\<close> returns unchanged.
\<close>

theorem vol_id_idx_inverse_counterexample:
  "(0 :: c_int) \<le>s 10000
   \<and> sint (idx2vol_id 0x7FFFEFFF ubi0 10000) = - 2147477873
   \<and> vol_id2idx 0x7FFFEFFF ubi0 (idx2vol_id 0x7FFFEFFF ubi0 10000) \<noteq> 10000"
  by (simp add: ubi0_def word_sle_eq vol_id2idx_def idx2vol_id_def)

text \<open>
  The failure does not depend on the value of the constant: whenever the device has
  fewer slots than \<^verbatim>\<open>UBI_INTERNAL_VOL_START\<close>, the index \<^verbatim>\<open>INT_MAX\<close> does not survive the
  round trip.
\<close>

lemma idx_round_trip_fails_at_INT_MAX:
  assumes "0 \<le>s vtbl_slots ubi" and "vtbl_slots ubi <s S"
  shows "vol_id2idx S ubi (idx2vol_id S ubi 0x7FFFFFFF) \<noteq> 0x7FFFFFFF"
proof -
  let ?n = "vtbl_slots ubi"
  let ?w = "0x7FFFFFFF - ?n + S"
  from assms have n: "0 \<le> sint ?n" "sint ?n < sint S"
    by (simp_all add: word_sle_eq word_sless_alt)
  have S: "sint S < 2 ^ 31"
    using sint_lt [of S] by simp
  have "sint ?n < 2 ^ 31"
    using sint_lt [of ?n] by simp
  then have le: "?n \<le>s 0x7FFFFFFF"
    by (simp add: word_sle_eq)
  have "?w = word_of_int (2 ^ 31 - 1 - sint ?n + sint S)"
    by simp
  moreover have "(2::int) ^ 31 \<le> 2 ^ 31 - 1 - sint ?n + sint S"
    using n by simp
  ultimately have "sint ?w \<le> (2 ^ 31 - 1 - sint ?n + sint S) - 2 ^ 32"
    using sint_int_wrapped by metis
  with n S have "sint ?w < sint S"
    by simp
  then have "\<not> S \<le>s ?w"
    by (simp add: word_sle_eq)
  moreover from n have "?w \<noteq> 0x7FFFFFFF"
    by auto
  ultimately show ?thesis
    using le by (simp add: idx2vol_id_def vol_id2idx_def)
qed

text \<open>
  The bound on \<^verbatim>\<open>vtbl_slots\<close> is needed as well: with more slots than
  \<^verbatim>\<open>UBI_INTERNAL_VOL_START\<close> the sum in \<^verbatim>\<open>vol_id2idx\<close> overflows for an internal volume.
\<close>

lemma vol_round_trip_needs_slots_bound:
  "idx2vol_id 0x7FFFEFFF (ubi0\<lparr>vtbl_slots := 0x7FFFFFFF\<rparr>)
     (vol_id2idx 0x7FFFEFFF (ubi0\<lparr>vtbl_slots := 0x7FFFFFFF\<rparr>) 0x7FFFF000) \<noteq> 0x7FFFF000"
  by (simp add: ubi0_def idx2vol_id_def vol_id2idx_def word_sle_eq)

subsection \<open>The read-only latch is one-way\<close>

lemma serve_read_only:
  assumes "ro_mode ubi \<noteq> 0"
  shows "serve req ubi = (ro_reply req, ubi)"
  using assms by (cases req) (simp_all add: ubi_ro_mode_def write_path_def)

lemma session_read_only:
  assumes "ro_mode ubi \<noteq> 0"
  shows "session reqs ubi = (map ro_reply reqs, ubi)"
  using assms by (induction reqs) (simp_all add: serve_read_only)

text \<open>
  Claim C4. \<^verbatim>\<open>ubi_ro_mode\<close> sets \<^verbatim>\<open>ro_mode\<close> of a writable device to 1 and is idempotent; a
  write path that meets a fatal I/O error on a writable device fails and leaves
  \<^verbatim>\<open>ro_mode = 1\<close>; and once \<^verbatim>\<open>ro_mode\<close> is set (to 1, or to any value C reads as true), the
  latch changes nothing, and whatever requests the rest of the session brings, every
  write path among them returns EROFS and the device, \<^verbatim>\<open>ro_mode\<close> included, stays as it is.
\<close>

theorem ro_mode_latch:
  "(ro_mode ubi = 0 \<longrightarrow> ro_mode (ubi_ro_mode ubi) = 1)
   \<and> ubi_ro_mode (ubi_ro_mode ubi) = ubi_ro_mode ubi
   \<and> (ro_mode ubi = 0 \<and> body ubi = (FLASH_FATAL, ubi') \<and> ro_mode ubi' = 0 \<longrightarrow>
        write_path body ubi = (Inl EIO, ubi'\<lparr>ro_mode := 1\<rparr>))
   \<and> (ro_mode ubi \<noteq> 0 \<longrightarrow>
        ubi_ro_mode ubi = ubi \<and> session reqs ubi = (map ro_reply reqs, ubi))"
proof (intro conjI impI)
  show "ubi_ro_mode (ubi_ro_mode ubi) = ubi_ro_mode ubi"
    by (simp add: ubi_ro_mode_def)
next
  assume "ro_mode ubi \<noteq> 0"
  then show "session reqs ubi = (map ro_reply reqs, ubi)"
    by (rule session_read_only)
qed (simp_all add: ubi_ro_mode_def write_path_def)

text \<open>
  Witness for C4: \<open>ubi0\<close> is writable; a header write that fails fatally latches it; from
  then on a write, a further call of the latch and another write are answered EROFS,
  nothing, EROFS, and the device does not change.
\<close>

theorem ro_mode_latch_witness:
  "ro_mode ubi0 = 0
   \<and> ro_mode (ubi_ro_mode ubi0) = 1
   \<and> write_path (\<lambda>u. (FLASH_FATAL, u)) ubi0 = (Inl EIO, ubi0\<lparr>ro_mode := 1\<rparr>)
   \<and> ro_mode (ubi0\<lparr>ro_mode := 1\<rparr>) = 1
   \<and> ubi_ro_mode (ubi0\<lparr>ro_mode := 1\<rparr>) = ubi0\<lparr>ro_mode := 1\<rparr>
   \<and> session [WRITE_PATH (\<lambda>u. (FLASH_OK, u\<lparr>global_sqnum := 7\<rparr>)), RO_MODE,
               WRITE_PATH (\<lambda>u. (FLASH_FATAL, u))] (ubi0\<lparr>ro_mode := 1\<rparr>)
       = ([Inl EROFS, Inr (), Inl EROFS], ubi0\<lparr>ro_mode := 1\<rparr>)"
  using ro_mode_latch [of ubi0 "\<lambda>u. (FLASH_FATAL, u)" ubi0]
    ro_mode_latch [of "ubi0\<lparr>ro_mode := 1\<rparr>" _ _
      "[WRITE_PATH (\<lambda>u. (FLASH_OK, u\<lparr>global_sqnum := 7\<rparr>)), RO_MODE,
        WRITE_PATH (\<lambda>u. (FLASH_FATAL, u))]"]
  by (simp add: ubi0_def)

subsection \<open>Sequence numbers grow until the counter wraps\<close>






text \<open>
  The bound on the header writes is the wrap again: from the same counter, two VID
  header writes are given \<open>2\<^sup>6\<^sup>4 - 1\<close> and then 0.
\<close>

lemma write_vid_hdrs_wrap:
  "map sqnum (fst (write_vid_hdrs
      [\<lparr>copy_flag = False, sqnum = 0\<rparr>, \<lparr>copy_flag = False, sqnum = 0\<rparr>]
      (ubi0\<lparr>global_sqnum := 0xFFFFFFFFFFFFFFFF\<rparr>))) = [0xFFFFFFFFFFFFFFFF, 0]"
  by (simp add: ubi0_def ubi_next_sqnum_def write_vid_hdr_def)

end
